theory Spec2Isabelle
  imports Main "HOL-Library.Word"
begin

section \<open>Python strings\<close>

text \<open>
  A Python \<open>str\<close> is a sequence of Unicode code points; \<open>len\<close> counts code points.
  The model is a list of code point numbers. String literals of the source are ASCII and
  are written through \<open>ascii\<close>.
\<close>

type_synonym pystr = "nat list"

definition ascii :: "string \<Rightarrow> pystr" where
  "ascii s = map of_char s"

subsection \<open>The character tables of the runtime\<close>

text \<open>
  \<open>str.isdigit\<close>, \<open>str.strip\<close> and \<open>str.lower\<close> consult the Unicode character database
  compiled into the interpreter. The tables below are those of Unicode 14.0 (CPython 3.11),
  as inclusive ranges of code points:
  \<^item> \<open>digit_ranges\<close>: the characters with a digit value (Numeric_Type Digit or Decimal),
    for which \<open>str.isdigit\<close> holds;
  \<^item> \<open>whitespace_ranges\<close>: the characters that \<open>str.strip\<close> removes;
  \<^item> \<open>cased_ranges\<close>, \<open>case_ignorable_ranges\<close>: the properties Cased and Case_Ignorable,
    read by the rule for a final capital sigma;
  \<^item> \<open>lower_runs\<close>: the lowercase mapping, a row \<open>(lo, hi, stride, target)\<close> mapping
    \<open>lo + k * stride\<close> (up to \<open>hi\<close>) to \<open>target + k * stride\<close>.
\<close>

definition in_ranges :: "nat \<Rightarrow> (nat \<times> nat) list \<Rightarrow> bool" where
  "in_ranges c rs = list_ex (\<lambda>(lo, hi). lo \<le> c \<and> c \<le> hi) rs"

definition digit_ranges :: "(nat \<times> nat) list" where
  "digit_ranges =
    [(0x30, 0x39), (0xB2, 0xB3), (0xB9, 0xB9), (0x660, 0x669), (0x6F0, 0x6F9), (0x7C0, 0x7C9),
     (0x966, 0x96F), (0x9E6, 0x9EF), (0xA66, 0xA6F), (0xAE6, 0xAEF), (0xB66, 0xB6F), (0xBE6, 0xBEF),
     (0xC66, 0xC6F), (0xCE6, 0xCEF), (0xD66, 0xD6F), (0xDE6, 0xDEF), (0xE50, 0xE59), (0xED0, 0xED9),
     (0xF20, 0xF29), (0x1040, 0x1049), (0x1090, 0x1099), (0x1369, 0x1371), (0x17E0, 0x17E9), (0x1810, 0x1819),
     (0x1946, 0x194F), (0x19D0, 0x19DA), (0x1A80, 0x1A89), (0x1A90, 0x1A99), (0x1B50, 0x1B59), (0x1BB0, 0x1BB9),
     (0x1C40, 0x1C49), (0x1C50, 0x1C59), (0x2070, 0x2070), (0x2074, 0x2079), (0x2080, 0x2089), (0x2460, 0x2468),
     (0x2474, 0x247C), (0x2488, 0x2490), (0x24EA, 0x24EA), (0x24F5, 0x24FD), (0x24FF, 0x24FF), (0x2776, 0x277E),
     (0x2780, 0x2788), (0x278A, 0x2792), (0xA620, 0xA629), (0xA8D0, 0xA8D9), (0xA900, 0xA909), (0xA9D0, 0xA9D9),
     (0xA9F0, 0xA9F9), (0xAA50, 0xAA59), (0xABF0, 0xABF9), (0xFF10, 0xFF19), (0x104A0, 0x104A9), (0x10A40, 0x10A43),
     (0x10D30, 0x10D39), (0x10E60, 0x10E68), (0x11052, 0x1105A), (0x11066, 0x1106F), (0x110F0, 0x110F9), (0x11136, 0x1113F),
     (0x111D0, 0x111D9), (0x112F0, 0x112F9), (0x11450, 0x11459), (0x114D0, 0x114D9), (0x11650, 0x11659), (0x116C0, 0x116C9),
     (0x11730, 0x11739), (0x118E0, 0x118E9), (0x11950, 0x11959), (0x11C50, 0x11C59), (0x11D50, 0x11D59), (0x11DA0, 0x11DA9),
     (0x16A60, 0x16A69), (0x16AC0, 0x16AC9), (0x16B50, 0x16B59), (0x1D7CE, 0x1D7FF), (0x1E140, 0x1E149), (0x1E2F0, 0x1E2F9),
     (0x1E950, 0x1E959), (0x1F100, 0x1F10A), (0x1FBF0, 0x1FBF9)]"

definition whitespace_ranges :: "(nat \<times> nat) list" where
  "whitespace_ranges =
    [(0x9, 0xD), (0x1C, 0x20), (0x85, 0x85), (0xA0, 0xA0), (0x1680, 0x1680), (0x2000, 0x200A),
     (0x2028, 0x2029), (0x202F, 0x202F), (0x205F, 0x205F), (0x3000, 0x3000)]"

definition cased_ranges :: "(nat \<times> nat) list" where
  "cased_ranges =
    [(0x41, 0x5A), (0x61, 0x7A), (0xAA, 0xAA), (0xB5, 0xB5), (0xBA, 0xBA), (0xC0, 0xD6),
     (0xD8, 0xF6), (0xF8, 0x1BA), (0x1BC, 0x1BF), (0x1C4, 0x293), (0x295, 0x2B8), (0x2C0, 0x2C1),
     (0x2E0, 0x2E4), (0x345, 0x345), (0x370, 0x373), (0x376, 0x377), (0x37A, 0x37D), (0x37F, 0x37F),
     (0x386, 0x386), (0x388, 0x38A), (0x38C, 0x38C), (0x38E, 0x3A1), (0x3A3, 0x3F5), (0x3F7, 0x481),
     (0x48A, 0x52F), (0x531, 0x556), (0x560, 0x588), (0x10A0, 0x10C5), (0x10C7, 0x10C7), (0x10CD, 0x10CD),
     (0x10D0, 0x10FA), (0x10FD, 0x10FF), (0x13A0, 0x13F5), (0x13F8, 0x13FD), (0x1C80, 0x1C88), (0x1C90, 0x1CBA),
     (0x1CBD, 0x1CBF), (0x1D00, 0x1DBF), (0x1E00, 0x1F15), (0x1F18, 0x1F1D), (0x1F20, 0x1F45), (0x1F48, 0x1F4D),
     (0x1F50, 0x1F57), (0x1F59, 0x1F59), (0x1F5B, 0x1F5B), (0x1F5D, 0x1F5D), (0x1F5F, 0x1F7D), (0x1F80, 0x1FB4),
     (0x1FB6, 0x1FBC), (0x1FBE, 0x1FBE), (0x1FC2, 0x1FC4), (0x1FC6, 0x1FCC), (0x1FD0, 0x1FD3), (0x1FD6, 0x1FDB),
     (0x1FE0, 0x1FEC), (0x1FF2, 0x1FF4), (0x1FF6, 0x1FFC), (0x2071, 0x2071), (0x207F, 0x207F), (0x2090, 0x209C),
     (0x2102, 0x2102), (0x2107, 0x2107), (0x210A, 0x2113), (0x2115, 0x2115), (0x2119, 0x211D), (0x2124, 0x2124),
     (0x2126, 0x2126), (0x2128, 0x2128), (0x212A, 0x212D), (0x212F, 0x2134), (0x2139, 0x2139), (0x213C, 0x213F),
     (0x2145, 0x2149), (0x214E, 0x214E), (0x2160, 0x217F), (0x2183, 0x2184), (0x24B6, 0x24E9), (0x2C00, 0x2CE4),
     (0x2CEB, 0x2CEE), (0x2CF2, 0x2CF3), (0x2D00, 0x2D25), (0x2D27, 0x2D27), (0x2D2D, 0x2D2D), (0xA640, 0xA66D),
     (0xA680, 0xA69D), (0xA722, 0xA787), (0xA78B, 0xA78E), (0xA790, 0xA7CA), (0xA7D0, 0xA7D1), (0xA7D3, 0xA7D3),
     (0xA7D5, 0xA7D9), (0xA7F5, 0xA7F6), (0xA7F8, 0xA7FA), (0xAB30, 0xAB5A), (0xAB5C, 0xAB68), (0xAB70, 0xABBF),
     (0xFB00, 0xFB06), (0xFB13, 0xFB17), (0xFF21, 0xFF3A), (0xFF41, 0xFF5A), (0x10400, 0x1044F), (0x104B0, 0x104D3),
     (0x104D8, 0x104FB), (0x10570, 0x1057A), (0x1057C, 0x1058A), (0x1058C, 0x10592), (0x10594, 0x10595), (0x10597, 0x105A1),
     (0x105A3, 0x105B1), (0x105B3, 0x105B9), (0x105BB, 0x105BC), (0x10780, 0x10780), (0x10783, 0x10785), (0x10787, 0x107B0),
     (0x107B2, 0x107BA), (0x10C80, 0x10CB2), (0x10CC0, 0x10CF2), (0x118A0, 0x118DF), (0x16E40, 0x16E7F), (0x1D400, 0x1D454),
     (0x1D456, 0x1D49C), (0x1D49E, 0x1D49F), (0x1D4A2, 0x1D4A2), (0x1D4A5, 0x1D4A6), (0x1D4A9, 0x1D4AC), (0x1D4AE, 0x1D4B9),
     (0x1D4BB, 0x1D4BB), (0x1D4BD, 0x1D4C3), (0x1D4C5, 0x1D505), (0x1D507, 0x1D50A), (0x1D50D, 0x1D514), (0x1D516, 0x1D51C),
     (0x1D51E, 0x1D539), (0x1D53B, 0x1D53E), (0x1D540, 0x1D544), (0x1D546, 0x1D546), (0x1D54A, 0x1D550), (0x1D552, 0x1D6A5),
     (0x1D6A8, 0x1D6C0), (0x1D6C2, 0x1D6DA), (0x1D6DC, 0x1D6FA), (0x1D6FC, 0x1D714), (0x1D716, 0x1D734), (0x1D736, 0x1D74E),
     (0x1D750, 0x1D76E), (0x1D770, 0x1D788), (0x1D78A, 0x1D7A8), (0x1D7AA, 0x1D7C2), (0x1D7C4, 0x1D7CB), (0x1DF00, 0x1DF09),
     (0x1DF0B, 0x1DF1E), (0x1E900, 0x1E943), (0x1F130, 0x1F149), (0x1F150, 0x1F169), (0x1F170, 0x1F189)]"

definition case_ignorable_ranges :: "(nat \<times> nat) list" where
  "case_ignorable_ranges =
    [(0x27, 0x27), (0x2E, 0x2E), (0x3A, 0x3A), (0x5E, 0x5E), (0x60, 0x60), (0xA8, 0xA8),
     (0xAD, 0xAD), (0xAF, 0xAF), (0xB4, 0xB4), (0xB7, 0xB8), (0x2B0, 0x36F), (0x374, 0x375),
     (0x37A, 0x37A), (0x384, 0x385), (0x387, 0x387), (0x483, 0x489), (0x559, 0x559), (0x55F, 0x55F),
     (0x591, 0x5BD), (0x5BF, 0x5BF), (0x5C1, 0x5C2), (0x5C4, 0x5C5), (0x5C7, 0x5C7), (0x5F4, 0x5F4),
     (0x600, 0x605), (0x610, 0x61A), (0x61C, 0x61C), (0x640, 0x640), (0x64B, 0x65F), (0x670, 0x670),
     (0x6D6, 0x6DD), (0x6DF, 0x6E8), (0x6EA, 0x6ED), (0x70F, 0x70F), (0x711, 0x711), (0x730, 0x74A),
     (0x7A6, 0x7B0), (0x7EB, 0x7F5), (0x7FA, 0x7FA), (0x7FD, 0x7FD), (0x816, 0x82D), (0x859, 0x85B),
     (0x888, 0x888), (0x890, 0x891), (0x898, 0x89F), (0x8C9, 0x902), (0x93A, 0x93A), (0x93C, 0x93C),
     (0x941, 0x948), (0x94D, 0x94D), (0x951, 0x957), (0x962, 0x963), (0x971, 0x971), (0x981, 0x981),
     (0x9BC, 0x9BC), (0x9C1, 0x9C4), (0x9CD, 0x9CD), (0x9E2, 0x9E3), (0x9FE, 0x9FE), (0xA01, 0xA02),
     (0xA3C, 0xA3C), (0xA41, 0xA42), (0xA47, 0xA48), (0xA4B, 0xA4D), (0xA51, 0xA51), (0xA70, 0xA71),
     (0xA75, 0xA75), (0xA81, 0xA82), (0xABC, 0xABC), (0xAC1, 0xAC5), (0xAC7, 0xAC8), (0xACD, 0xACD),
     (0xAE2, 0xAE3), (0xAFA, 0xAFF), (0xB01, 0xB01), (0xB3C, 0xB3C), (0xB3F, 0xB3F), (0xB41, 0xB44),
     (0xB4D, 0xB4D), (0xB55, 0xB56), (0xB62, 0xB63), (0xB82, 0xB82), (0xBC0, 0xBC0), (0xBCD, 0xBCD),
     (0xC00, 0xC00), (0xC04, 0xC04), (0xC3C, 0xC3C), (0xC3E, 0xC40), (0xC46, 0xC48), (0xC4A, 0xC4D),
     (0xC55, 0xC56), (0xC62, 0xC63), (0xC81, 0xC81), (0xCBC, 0xCBC), (0xCBF, 0xCBF), (0xCC6, 0xCC6),
     (0xCCC, 0xCCD), (0xCE2, 0xCE3), (0xD00, 0xD01), (0xD3B, 0xD3C), (0xD41, 0xD44), (0xD4D, 0xD4D),
     (0xD62, 0xD63), (0xD81, 0xD81), (0xDCA, 0xDCA), (0xDD2, 0xDD4), (0xDD6, 0xDD6), (0xE31, 0xE31),
     (0xE34, 0xE3A), (0xE46, 0xE4E), (0xEB1, 0xEB1), (0xEB4, 0xEBC), (0xEC6, 0xEC6), (0xEC8, 0xECD),
     (0xF18, 0xF19), (0xF35, 0xF35), (0xF37, 0xF37), (0xF39, 0xF39), (0xF71, 0xF7E), (0xF80, 0xF84),
     (0xF86, 0xF87), (0xF8D, 0xF97), (0xF99, 0xFBC), (0xFC6, 0xFC6), (0x102D, 0x1030), (0x1032, 0x1037),
     (0x1039, 0x103A), (0x103D, 0x103E), (0x1058, 0x1059), (0x105E, 0x1060), (0x1071, 0x1074), (0x1082, 0x1082),
     (0x1085, 0x1086), (0x108D, 0x108D), (0x109D, 0x109D), (0x10FC, 0x10FC), (0x135D, 0x135F), (0x1712, 0x1714),
     (0x1732, 0x1733), (0x1752, 0x1753), (0x1772, 0x1773), (0x17B4, 0x17B5), (0x17B7, 0x17BD), (0x17C6, 0x17C6),
     (0x17C9, 0x17D3), (0x17D7, 0x17D7), (0x17DD, 0x17DD), (0x180B, 0x180F), (0x1843, 0x1843), (0x1885, 0x1886),
     (0x18A9, 0x18A9), (0x1920, 0x1922), (0x1927, 0x1928), (0x1932, 0x1932), (0x1939, 0x193B), (0x1A17, 0x1A18),
     (0x1A1B, 0x1A1B), (0x1A56, 0x1A56), (0x1A58, 0x1A5E), (0x1A60, 0x1A60), (0x1A62, 0x1A62), (0x1A65, 0x1A6C),
     (0x1A73, 0x1A7C), (0x1A7F, 0x1A7F), (0x1AA7, 0x1AA7), (0x1AB0, 0x1ACE), (0x1B00, 0x1B03), (0x1B34, 0x1B34),
     (0x1B36, 0x1B3A), (0x1B3C, 0x1B3C), (0x1B42, 0x1B42), (0x1B6B, 0x1B73), (0x1B80, 0x1B81), (0x1BA2, 0x1BA5),
     (0x1BA8, 0x1BA9), (0x1BAB, 0x1BAD), (0x1BE6, 0x1BE6), (0x1BE8, 0x1BE9), (0x1BED, 0x1BED), (0x1BEF, 0x1BF1),
     (0x1C2C, 0x1C33), (0x1C36, 0x1C37), (0x1C78, 0x1C7D), (0x1CD0, 0x1CD2), (0x1CD4, 0x1CE0), (0x1CE2, 0x1CE8),
     (0x1CED, 0x1CED), (0x1CF4, 0x1CF4), (0x1CF8, 0x1CF9), (0x1D2C, 0x1D6A), (0x1D78, 0x1D78), (0x1D9B, 0x1DFF),
     (0x1FBD, 0x1FBD), (0x1FBF, 0x1FC1), (0x1FCD, 0x1FCF), (0x1FDD, 0x1FDF), (0x1FED, 0x1FEF), (0x1FFD, 0x1FFE),
     (0x200B, 0x200F), (0x2018, 0x2019), (0x2024, 0x2024), (0x2027, 0x2027), (0x202A, 0x202E), (0x2060, 0x2064),
     (0x2066, 0x206F), (0x2071, 0x2071), (0x207F, 0x207F), (0x2090, 0x209C), (0x20D0, 0x20F0), (0x2C7C, 0x2C7D),
     (0x2CEF, 0x2CF1), (0x2D6F, 0x2D6F), (0x2D7F, 0x2D7F), (0x2DE0, 0x2DFF), (0x2E2F, 0x2E2F), (0x3005, 0x3005),
     (0x302A, 0x302D), (0x3031, 0x3035), (0x303B, 0x303B), (0x3099, 0x309E), (0x30FC, 0x30FE), (0xA015, 0xA015),
     (0xA4F8, 0xA4FD), (0xA60C, 0xA60C), (0xA66F, 0xA672), (0xA674, 0xA67D), (0xA67F, 0xA67F), (0xA69C, 0xA69F),
     (0xA6F0, 0xA6F1), (0xA700, 0xA721), (0xA770, 0xA770), (0xA788, 0xA78A), (0xA7F2, 0xA7F4), (0xA7F8, 0xA7F9),
     (0xA802, 0xA802), (0xA806, 0xA806), (0xA80B, 0xA80B), (0xA825, 0xA826), (0xA82C, 0xA82C), (0xA8C4, 0xA8C5),
     (0xA8E0, 0xA8F1), (0xA8FF, 0xA8FF), (0xA926, 0xA92D), (0xA947, 0xA951), (0xA980, 0xA982), (0xA9B3, 0xA9B3),
     (0xA9B6, 0xA9B9), (0xA9BC, 0xA9BD), (0xA9CF, 0xA9CF), (0xA9E5, 0xA9E6), (0xAA29, 0xAA2E), (0xAA31, 0xAA32),
     (0xAA35, 0xAA36), (0xAA43, 0xAA43), (0xAA4C, 0xAA4C), (0xAA70, 0xAA70), (0xAA7C, 0xAA7C), (0xAAB0, 0xAAB0),
     (0xAAB2, 0xAAB4), (0xAAB7, 0xAAB8), (0xAABE, 0xAABF), (0xAAC1, 0xAAC1), (0xAADD, 0xAADD), (0xAAEC, 0xAAED),
     (0xAAF3, 0xAAF4), (0xAAF6, 0xAAF6), (0xAB5B, 0xAB5F), (0xAB69, 0xAB6B), (0xABE5, 0xABE5), (0xABE8, 0xABE8),
     (0xABED, 0xABED), (0xFB1E, 0xFB1E), (0xFBB2, 0xFBC2), (0xFE00, 0xFE0F), (0xFE13, 0xFE13), (0xFE20, 0xFE2F),
     (0xFE52, 0xFE52), (0xFE55, 0xFE55), (0xFEFF, 0xFEFF), (0xFF07, 0xFF07), (0xFF0E, 0xFF0E), (0xFF1A, 0xFF1A),
     (0xFF3E, 0xFF3E), (0xFF40, 0xFF40), (0xFF70, 0xFF70), (0xFF9E, 0xFF9F), (0xFFE3, 0xFFE3), (0xFFF9, 0xFFFB),
     (0x101FD, 0x101FD), (0x102E0, 0x102E0), (0x10376, 0x1037A), (0x10780, 0x10785), (0x10787, 0x107B0), (0x107B2, 0x107BA),
     (0x10A01, 0x10A03), (0x10A05, 0x10A06), (0x10A0C, 0x10A0F), (0x10A38, 0x10A3A), (0x10A3F, 0x10A3F), (0x10AE5, 0x10AE6),
     (0x10D24, 0x10D27), (0x10EAB, 0x10EAC), (0x10F46, 0x10F50), (0x10F82, 0x10F85), (0x11001, 0x11001), (0x11038, 0x11046),
     (0x11070, 0x11070), (0x11073, 0x11074), (0x1107F, 0x11081), (0x110B3, 0x110B6), (0x110B9, 0x110BA), (0x110BD, 0x110BD),
     (0x110C2, 0x110C2), (0x110CD, 0x110CD), (0x11100, 0x11102), (0x11127, 0x1112B), (0x1112D, 0x11134), (0x11173, 0x11173),
     (0x11180, 0x11181), (0x111B6, 0x111BE), (0x111C9, 0x111CC), (0x111CF, 0x111CF), (0x1122F, 0x11231), (0x11234, 0x11234),
     (0x11236, 0x11237), (0x1123E, 0x1123E), (0x112DF, 0x112DF), (0x112E3, 0x112EA), (0x11300, 0x11301), (0x1133B, 0x1133C),
     (0x11340, 0x11340), (0x11366, 0x1136C), (0x11370, 0x11374), (0x11438, 0x1143F), (0x11442, 0x11444), (0x11446, 0x11446),
     (0x1145E, 0x1145E), (0x114B3, 0x114B8), (0x114BA, 0x114BA), (0x114BF, 0x114C0), (0x114C2, 0x114C3), (0x115B2, 0x115B5),
     (0x115BC, 0x115BD), (0x115BF, 0x115C0), (0x115DC, 0x115DD), (0x11633, 0x1163A), (0x1163D, 0x1163D), (0x1163F, 0x11640),
     (0x116AB, 0x116AB), (0x116AD, 0x116AD), (0x116B0, 0x116B5), (0x116B7, 0x116B7), (0x1171D, 0x1171F), (0x11722, 0x11725),
     (0x11727, 0x1172B), (0x1182F, 0x11837), (0x11839, 0x1183A), (0x1193B, 0x1193C), (0x1193E, 0x1193E), (0x11943, 0x11943),
     (0x119D4, 0x119D7), (0x119DA, 0x119DB), (0x119E0, 0x119E0), (0x11A01, 0x11A0A), (0x11A33, 0x11A38), (0x11A3B, 0x11A3E),
     (0x11A47, 0x11A47), (0x11A51, 0x11A56), (0x11A59, 0x11A5B), (0x11A8A, 0x11A96), (0x11A98, 0x11A99), (0x11C30, 0x11C36),
     (0x11C38, 0x11C3D), (0x11C3F, 0x11C3F), (0x11C92, 0x11CA7), (0x11CAA, 0x11CB0), (0x11CB2, 0x11CB3), (0x11CB5, 0x11CB6),
     (0x11D31, 0x11D36), (0x11D3A, 0x11D3A), (0x11D3C, 0x11D3D), (0x11D3F, 0x11D45), (0x11D47, 0x11D47), (0x11D90, 0x11D91),
     (0x11D95, 0x11D95), (0x11D97, 0x11D97), (0x11EF3, 0x11EF4), (0x13430, 0x13438), (0x16AF0, 0x16AF4), (0x16B30, 0x16B36),
     (0x16B40, 0x16B43), (0x16F4F, 0x16F4F), (0x16F8F, 0x16F9F), (0x16FE0, 0x16FE1), (0x16FE3, 0x16FE4), (0x1AFF0, 0x1AFF3),
     (0x1AFF5, 0x1AFFB), (0x1AFFD, 0x1AFFE), (0x1BC9D, 0x1BC9E), (0x1BCA0, 0x1BCA3), (0x1CF00, 0x1CF2D), (0x1CF30, 0x1CF46),
     (0x1D167, 0x1D169), (0x1D173, 0x1D182), (0x1D185, 0x1D18B), (0x1D1AA, 0x1D1AD), (0x1D242, 0x1D244), (0x1DA00, 0x1DA36),
     (0x1DA3B, 0x1DA6C), (0x1DA75, 0x1DA75), (0x1DA84, 0x1DA84), (0x1DA9B, 0x1DA9F), (0x1DAA1, 0x1DAAF), (0x1E000, 0x1E006),
     (0x1E008, 0x1E018), (0x1E01B, 0x1E021), (0x1E023, 0x1E024), (0x1E026, 0x1E02A), (0x1E130, 0x1E13D), (0x1E2AE, 0x1E2AE),
     (0x1E2EC, 0x1E2EF), (0x1E8D0, 0x1E8D6), (0x1E944, 0x1E94B), (0x1F3FB, 0x1F3FF), (0xE0001, 0xE0001), (0xE0020, 0xE007F),
     (0xE0100, 0xE01EF)]"

definition lower_runs :: "(nat \<times> nat \<times> nat \<times> nat) list" where
  "lower_runs =
    [(0x41, 0x5A, 1, 0x61), (0xC0, 0xD6, 1, 0xE0), (0xD8, 0xDE, 1, 0xF8),
     (0x100, 0x12E, 2, 0x101), (0x132, 0x136, 2, 0x133), (0x139, 0x147, 2, 0x13A),
     (0x14A, 0x176, 2, 0x14B), (0x178, 0x178, 1, 0xFF), (0x179, 0x17D, 2, 0x17A),
     (0x181, 0x181, 1, 0x253), (0x182, 0x184, 2, 0x183), (0x186, 0x186, 1, 0x254),
     (0x187, 0x187, 1, 0x188), (0x189, 0x18A, 1, 0x256), (0x18B, 0x18B, 1, 0x18C),
     (0x18E, 0x18E, 1, 0x1DD), (0x18F, 0x18F, 1, 0x259), (0x190, 0x190, 1, 0x25B),
     (0x191, 0x191, 1, 0x192), (0x193, 0x193, 1, 0x260), (0x194, 0x194, 1, 0x263),
     (0x196, 0x196, 1, 0x269), (0x197, 0x197, 1, 0x268), (0x198, 0x198, 1, 0x199),
     (0x19C, 0x19C, 1, 0x26F), (0x19D, 0x19D, 1, 0x272), (0x19F, 0x19F, 1, 0x275),
     (0x1A0, 0x1A4, 2, 0x1A1), (0x1A6, 0x1A6, 1, 0x280), (0x1A7, 0x1A7, 1, 0x1A8),
     (0x1A9, 0x1A9, 1, 0x283), (0x1AC, 0x1AC, 1, 0x1AD), (0x1AE, 0x1AE, 1, 0x288),
     (0x1AF, 0x1AF, 1, 0x1B0), (0x1B1, 0x1B2, 1, 0x28A), (0x1B3, 0x1B5, 2, 0x1B4),
     (0x1B7, 0x1B7, 1, 0x292), (0x1B8, 0x1B8, 1, 0x1B9), (0x1BC, 0x1BC, 1, 0x1BD),
     (0x1C4, 0x1C4, 1, 0x1C6), (0x1C5, 0x1C5, 1, 0x1C6), (0x1C7, 0x1C7, 1, 0x1C9),
     (0x1C8, 0x1C8, 1, 0x1C9), (0x1CA, 0x1CA, 1, 0x1CC), (0x1CB, 0x1DB, 2, 0x1CC),
     (0x1DE, 0x1EE, 2, 0x1DF), (0x1F1, 0x1F1, 1, 0x1F3), (0x1F2, 0x1F4, 2, 0x1F3),
     (0x1F6, 0x1F6, 1, 0x195), (0x1F7, 0x1F7, 1, 0x1BF), (0x1F8, 0x21E, 2, 0x1F9),
     (0x220, 0x220, 1, 0x19E), (0x222, 0x232, 2, 0x223), (0x23A, 0x23A, 1, 0x2C65),
     (0x23B, 0x23B, 1, 0x23C), (0x23D, 0x23D, 1, 0x19A), (0x23E, 0x23E, 1, 0x2C66),
     (0x241, 0x241, 1, 0x242), (0x243, 0x243, 1, 0x180), (0x244, 0x244, 1, 0x289),
     (0x245, 0x245, 1, 0x28C), (0x246, 0x24E, 2, 0x247), (0x370, 0x372, 2, 0x371),
     (0x376, 0x376, 1, 0x377), (0x37F, 0x37F, 1, 0x3F3), (0x386, 0x386, 1, 0x3AC),
     (0x388, 0x38A, 1, 0x3AD), (0x38C, 0x38C, 1, 0x3CC), (0x38E, 0x38F, 1, 0x3CD),
     (0x391, 0x3A1, 1, 0x3B1), (0x3A4, 0x3AB, 1, 0x3C4), (0x3CF, 0x3CF, 1, 0x3D7),
     (0x3D8, 0x3EE, 2, 0x3D9), (0x3F4, 0x3F4, 1, 0x3B8), (0x3F7, 0x3F7, 1, 0x3F8),
     (0x3F9, 0x3F9, 1, 0x3F2), (0x3FA, 0x3FA, 1, 0x3FB), (0x3FD, 0x3FF, 1, 0x37B),
     (0x400, 0x40F, 1, 0x450), (0x410, 0x42F, 1, 0x430), (0x460, 0x480, 2, 0x461),
     (0x48A, 0x4BE, 2, 0x48B), (0x4C0, 0x4C0, 1, 0x4CF), (0x4C1, 0x4CD, 2, 0x4C2),
     (0x4D0, 0x52E, 2, 0x4D1), (0x531, 0x556, 1, 0x561), (0x10A0, 0x10C5, 1, 0x2D00),
     (0x10C7, 0x10C7, 1, 0x2D27), (0x10CD, 0x10CD, 1, 0x2D2D), (0x13A0, 0x13EF, 1, 0xAB70),
     (0x13F0, 0x13F5, 1, 0x13F8), (0x1C90, 0x1CBA, 1, 0x10D0), (0x1CBD, 0x1CBF, 1, 0x10FD),
     (0x1E00, 0x1E94, 2, 0x1E01), (0x1E9E, 0x1E9E, 1, 0xDF), (0x1EA0, 0x1EFE, 2, 0x1EA1),
     (0x1F08, 0x1F0F, 1, 0x1F00), (0x1F18, 0x1F1D, 1, 0x1F10), (0x1F28, 0x1F2F, 1, 0x1F20),
     (0x1F38, 0x1F3F, 1, 0x1F30), (0x1F48, 0x1F4D, 1, 0x1F40), (0x1F59, 0x1F5F, 2, 0x1F51),
     (0x1F68, 0x1F6F, 1, 0x1F60), (0x1F88, 0x1F8F, 1, 0x1F80), (0x1F98, 0x1F9F, 1, 0x1F90),
     (0x1FA8, 0x1FAF, 1, 0x1FA0), (0x1FB8, 0x1FB9, 1, 0x1FB0), (0x1FBA, 0x1FBB, 1, 0x1F70),
     (0x1FBC, 0x1FBC, 1, 0x1FB3), (0x1FC8, 0x1FCB, 1, 0x1F72), (0x1FCC, 0x1FCC, 1, 0x1FC3),
     (0x1FD8, 0x1FD9, 1, 0x1FD0), (0x1FDA, 0x1FDB, 1, 0x1F76), (0x1FE8, 0x1FE9, 1, 0x1FE0),
     (0x1FEA, 0x1FEB, 1, 0x1F7A), (0x1FEC, 0x1FEC, 1, 0x1FE5), (0x1FF8, 0x1FF9, 1, 0x1F78),
     (0x1FFA, 0x1FFB, 1, 0x1F7C), (0x1FFC, 0x1FFC, 1, 0x1FF3), (0x2126, 0x2126, 1, 0x3C9),
     (0x212A, 0x212A, 1, 0x6B), (0x212B, 0x212B, 1, 0xE5), (0x2132, 0x2132, 1, 0x214E),
     (0x2160, 0x216F, 1, 0x2170), (0x2183, 0x2183, 1, 0x2184), (0x24B6, 0x24CF, 1, 0x24D0),
     (0x2C00, 0x2C2F, 1, 0x2C30), (0x2C60, 0x2C60, 1, 0x2C61), (0x2C62, 0x2C62, 1, 0x26B),
     (0x2C63, 0x2C63, 1, 0x1D7D), (0x2C64, 0x2C64, 1, 0x27D), (0x2C67, 0x2C6B, 2, 0x2C68),
     (0x2C6D, 0x2C6D, 1, 0x251), (0x2C6E, 0x2C6E, 1, 0x271), (0x2C6F, 0x2C6F, 1, 0x250),
     (0x2C70, 0x2C70, 1, 0x252), (0x2C72, 0x2C72, 1, 0x2C73), (0x2C75, 0x2C75, 1, 0x2C76),
     (0x2C7E, 0x2C7F, 1, 0x23F), (0x2C80, 0x2CE2, 2, 0x2C81), (0x2CEB, 0x2CED, 2, 0x2CEC),
     (0x2CF2, 0x2CF2, 1, 0x2CF3), (0xA640, 0xA66C, 2, 0xA641), (0xA680, 0xA69A, 2, 0xA681),
     (0xA722, 0xA72E, 2, 0xA723), (0xA732, 0xA76E, 2, 0xA733), (0xA779, 0xA77B, 2, 0xA77A),
     (0xA77D, 0xA77D, 1, 0x1D79), (0xA77E, 0xA786, 2, 0xA77F), (0xA78B, 0xA78B, 1, 0xA78C),
     (0xA78D, 0xA78D, 1, 0x265), (0xA790, 0xA792, 2, 0xA791), (0xA796, 0xA7A8, 2, 0xA797),
     (0xA7AA, 0xA7AA, 1, 0x266), (0xA7AB, 0xA7AB, 1, 0x25C), (0xA7AC, 0xA7AC, 1, 0x261),
     (0xA7AD, 0xA7AD, 1, 0x26C), (0xA7AE, 0xA7AE, 1, 0x26A), (0xA7B0, 0xA7B0, 1, 0x29E),
     (0xA7B1, 0xA7B1, 1, 0x287), (0xA7B2, 0xA7B2, 1, 0x29D), (0xA7B3, 0xA7B3, 1, 0xAB53),
     (0xA7B4, 0xA7C2, 2, 0xA7B5), (0xA7C4, 0xA7C4, 1, 0xA794), (0xA7C5, 0xA7C5, 1, 0x282),
     (0xA7C6, 0xA7C6, 1, 0x1D8E), (0xA7C7, 0xA7C9, 2, 0xA7C8), (0xA7D0, 0xA7D0, 1, 0xA7D1),
     (0xA7D6, 0xA7D8, 2, 0xA7D7), (0xA7F5, 0xA7F5, 1, 0xA7F6), (0xFF21, 0xFF3A, 1, 0xFF41),
     (0x10400, 0x10427, 1, 0x10428), (0x104B0, 0x104D3, 1, 0x104D8), (0x10570, 0x1057A, 1, 0x10597),
     (0x1057C, 0x1058A, 1, 0x105A3), (0x1058C, 0x10592, 1, 0x105B3), (0x10594, 0x10595, 1, 0x105BB),
     (0x10C80, 0x10CB2, 1, 0x10CC0), (0x118A0, 0x118BF, 1, 0x118C0), (0x16E40, 0x16E5F, 1, 0x16E60),
     (0x1E900, 0x1E921, 1, 0x1E922)]"

definition is_digit :: "nat \<Rightarrow> bool" where
  "is_digit c = in_ranges c digit_ranges"

definition is_whitespace :: "nat \<Rightarrow> bool" where
  "is_whitespace c = in_ranges c whitespace_ranges"

definition is_cased :: "nat \<Rightarrow> bool" where
  "is_cased c = in_ranges c cased_ranges"

definition is_case_ignorable :: "nat \<Rightarrow> bool" where
  "is_case_ignorable c = in_ranges c case_ignorable_ranges"

text \<open>
  The full lowercase mapping of one code point. U+0130 is the only character whose
  lowercase form has two code points.
\<close>

definition to_lower_full :: "nat \<Rightarrow> pystr" where
  "to_lower_full c =
     (if c = 0x130 then [0x69, 0x307]
      else case find (\<lambda>(lo, hi, stride, target).
                  lo \<le> c \<and> c \<le> hi \<and> (c - lo) mod stride = 0) lower_runs of
             Some (lo, hi, stride, target) \<Rightarrow> [target + (c - lo)]
           | None \<Rightarrow> [c])"

subsection \<open>The string methods the tools call\<close>

text \<open>\<open>s.isdigit()\<close>: at least one character, and every character is a digit.\<close>

definition str_isdigit :: "pystr \<Rightarrow> bool" where
  "str_isdigit s = (s \<noteq> [] \<and> list_all is_digit s)"

text \<open>\<open>s.strip()\<close>: whitespace is dropped from the left end, then from the right end.\<close>

definition str_strip :: "pystr \<Rightarrow> pystr" where
  "str_strip s = rev (dropWhile is_whitespace (rev (dropWhile is_whitespace s)))"

text \<open>
  \<open>s.lower()\<close>. A string of ASCII characters only is mapped letter by letter. Any other
  string goes through the full case mapping, where a capital sigma becomes the final
  form U+03C2 when a cased character precedes it (case-ignorable characters skipped)
  and no cased character follows it (again skipping case-ignorable characters), and
  U+03C3 otherwise. \<open>before\<close> holds the characters already passed, nearest first.
\<close>

definition ascii_lower :: "nat \<Rightarrow> nat" where
  "ascii_lower c = (if 0x41 \<le> c \<and> c \<le> 0x5A then c + 0x20 else c)"

definition handle_capital_sigma :: "pystr \<Rightarrow> pystr \<Rightarrow> nat" where
  "handle_capital_sigma before after =
     (let b = dropWhile is_case_ignorable before;
          final_sigma = (b \<noteq> [] \<and> is_cased (hd b));
          final_sigma =
            (if final_sigma
             then (let a = dropWhile is_case_ignorable after in a = [] \<or> \<not> is_cased (hd a))
             else final_sigma)
      in if final_sigma then 0x3C2 else 0x3C3)"

definition lower_ucs4 :: "pystr \<Rightarrow> nat \<Rightarrow> pystr \<Rightarrow> pystr" where
  "lower_ucs4 before c after =
     (if c = 0x3A3 then [handle_capital_sigma before after] else to_lower_full c)"

fun do_lower :: "pystr \<Rightarrow> pystr \<Rightarrow> pystr" where
  "do_lower before [] = []"
| "do_lower before (c # after) = lower_ucs4 before c after @ do_lower (c # before) after"

definition str_lower :: "pystr \<Rightarrow> pystr" where
  "str_lower s = (if list_all (\<lambda>c. c < 0x80) s then map ascii_lower s else do_lower [] s)"

text \<open>\<open>sep.join(xs)\<close>.\<close>

fun str_join :: "pystr \<Rightarrow> pystr list \<Rightarrow> pystr" where
  "str_join sep [] = []"
| "str_join sep [x] = x"
| "str_join sep (x # y # ys) = x @ sep @ str_join sep (y # ys)"

section \<open>The validation tool\<close>

text \<open>
  The tools return dictionaries with string keys and values of several types. A
  dictionary is an association list in insertion order.
\<close>

datatype pyval = VBool bool | VStr pystr | VList "pystr list" | VInt int

type_synonym pydict = "(string \<times> pyval) list"

definition valid_reasons :: "pystr list" where
  "valid_reasons = [ascii ''lost'', ascii ''stolen'', ascii ''damaged'', ascii ''expired'']"

text \<open>
  \<open>validate_card_details\<close> of \<^verbatim>\<open>service_agent.py\<close>. \<open>not s\<close> on a string is \<open>s = []\<close>;
  \<open>errors.append\<close> extends the list at its end.
\<close>

definition validate_card_details :: "pystr \<Rightarrow> pystr \<Rightarrow> pystr \<Rightarrow> pystr \<Rightarrow> pydict" where
  "validate_card_details last_four_digits cardholder_name address replacement_reason =
     (let errors = [];
          errors =
            (if last_four_digits = [] \<or> length last_four_digits \<noteq> 4
                \<or> \<not> str_isdigit last_four_digits
             then errors @ [ascii ''Last 4 digits must be exactly 4 numeric characters'']
             else errors);
          errors =
            (if cardholder_name = [] \<or> length (str_strip cardholder_name) < 2
             then errors @ [ascii ''Cardholder name must be at least 2 characters'']
             else errors);
          errors =
            (if address = [] \<or> length (str_strip address) < 10
             then errors @ [ascii ''Address must be at least 10 characters'']
             else errors);
          errors =
            (if replacement_reason = [] \<or> str_lower replacement_reason \<notin> set valid_reasons
             then errors @ [ascii ''Replacement reason must be one of: ''
                              @ str_join (ascii '', '') valid_reasons]
             else errors)
      in if errors \<noteq> []
         then [(''valid'', VBool False),
               (''errors'', VList errors),
               (''status'', VStr (ascii ''validation_failed''))]
         else [(''valid'', VBool True),
               (''last_four_digits'', VStr last_four_digits),
               (''cardholder_name'', VStr (str_strip cardholder_name)),
               (''address'', VStr (str_strip address)),
               (''replacement_reason'', VStr (str_lower replacement_reason)),
               (''status'', VStr (ascii ''validated''))])"

section \<open>The randomness source\<close>

text \<open>
  \<open>issue_replacement_ticket\<close> draws the ticket identifier with \<open>random.choices\<close>, which
  reads the generator of the \<open>random\<close> module. \<open>random.random()\<close> returns the double
  \<open>x * 2^-53\<close> for a 53-bit integer \<open>x\<close>; the model holds \<open>x\<close>, and the state of the
  generator is the sequence of its future draws.
\<close>

datatype py_error = IndexError

type_synonym random_state = "nat \<Rightarrow> 53 word"

definition rng_random :: "random_state \<Rightarrow> 53 word \<times> random_state" where
  "rng_random g = (g 0, \<lambda>i. g (Suc i))"

text \<open>
  Doubles that are multiples of \<open>2^-53\<close> are held as natural numbers, in units of
  \<open>2^-53\<close> (or in units of one, for the length of the population). \<open>to_double\<close>
  rounds to 53 significant bits, to nearest and ties to even, as the conversion of an
  integer to a double and the multiplication of two doubles do. \<open>random_times x n\<close> is
  \<open>random() * n\<close> after \<open>n += 0.0\<close>, and \<open>floor_double\<close> is \<open>floor\<close>.
\<close>

fun bit_length :: "nat \<Rightarrow> nat" where
  "bit_length n = (if n = 0 then 0 else Suc (bit_length (n div 2)))"

definition round_half_even :: "nat \<Rightarrow> nat \<Rightarrow> nat" where
  "round_half_even e p =
     (let q = p div 2 ^ e; r = p mod 2 ^ e
      in if 2 ^ e < 2 * r \<or> (2 * r = 2 ^ e \<and> odd q) then (q + 1) * 2 ^ e else q * 2 ^ e)"

definition to_double :: "nat \<Rightarrow> nat" where
  "to_double p = round_half_even (bit_length p - 53) p"

definition random_times :: "53 word \<Rightarrow> nat \<Rightarrow> nat" where
  "random_times x n = to_double (unat x * to_double n)"

definition floor_double :: "nat \<Rightarrow> nat" where
  "floor_double y = y div 2 ^ 53"

text \<open>
  \<open>random.choices(population, k=k)\<close> without weights:
  \<^verbatim>\<open>[population[floor(random() * n)] for i in _repeat(None, k)]\<close>.
  Indexing outside the population raises \<open>IndexError\<close>.
\<close>

fun random_choices ::
  "'a list \<Rightarrow> nat \<Rightarrow> random_state \<Rightarrow> (py_error + 'a list) \<times> random_state" where
  "random_choices population 0 g = (Inr [], g)"
| "random_choices population (Suc k) g =
     (let (x, g1) = rng_random g;
          i = floor_double (random_times x (length population))
      in if i < length population
         then (case random_choices population k g1 of
                 (Inr chosen, g2) \<Rightarrow> (Inr (population ! i # chosen), g2)
               | (Inl e, g2) \<Rightarrow> (Inl e, g2))
         else (Inl IndexError, g1))"

section \<open>The ticket tool\<close>

definition ascii_uppercase :: pystr where
  "ascii_uppercase = ascii ''ABCDEFGHIJKLMNOPQRSTUVWXYZ''"

definition digits :: pystr where
  "digits = ascii ''0123456789''"

text \<open>\<open>str(i)\<close> of an integer, as the f-string of the message formats the days.\<close>

fun str_nat :: "nat \<Rightarrow> pystr" where
  "str_nat n = (if n < 10 then [0x30 + n] else str_nat (n div 10) @ [0x30 + n mod 10])"

definition str_int :: "int \<Rightarrow> pystr" where
  "str_int i = (if i < 0 then ascii ''-'' @ str_nat (nat (- i)) else str_nat (nat i))"

text \<open>\<open>d.get(key, dflt)\<close>.\<close>

definition dict_get :: "('k \<times> 'v) list \<Rightarrow> 'k \<Rightarrow> 'v \<Rightarrow> 'v" where
  "dict_get d key dflt = (case map_of d key of Some v \<Rightarrow> v | None \<Rightarrow> dflt)"

text \<open>
  \<open>issue_replacement_ticket\<close> of \<^verbatim>\<open>service_agent.py\<close>. The population is a string, so
  each chosen element is a string of one character, and \<open>''.join\<close> concatenates them.
  The function takes the state of the generator and returns the new one; an exception
  raised inside \<open>random.choices\<close> leaves through \<open>Inl\<close>.
\<close>

definition issue_replacement_ticket ::
  "pystr \<Rightarrow> pystr \<Rightarrow> pystr \<Rightarrow> pystr \<Rightarrow> random_state \<Rightarrow> (py_error + pydict) \<times> random_state" where
  "issue_replacement_ticket last_four_digits cardholder_name address replacement_reason g =
     (case random_choices (map (\<lambda>c. [c]) (ascii_uppercase @ digits)) 8 g of
        (Inl e, g1) \<Rightarrow> (Inl e, g1)
      | (Inr chosen, g1) \<Rightarrow>
          (let ticket_id = ascii ''TICKET-'' @ str_join [] chosen;
               processing_days =
                 [(ascii ''lost'', 3), (ascii ''stolen'', 1), (ascii ''damaged'', 2),
                  (ascii ''expired'', 5)];
               days = dict_get processing_days (str_lower replacement_reason) 3
           in (Inr [(''ticket_id'', VStr ticket_id),
                    (''status'', VStr (ascii ''issued'')),
                    (''cardholder_name'', VStr cardholder_name),
                    (''last_four_digits'', VStr last_four_digits),
                    (''replacement_reason'', VStr replacement_reason),
                    (''estimated_processing_days'', VInt days),
                    (''message'', VStr (ascii ''Replacement ticket '' @ ticket_id
                       @ ascii '' issued successfully. New card will arrive in ''
                       @ str_int days @ ascii '' business days.''))],
               g1)))"

text \<open>
  The agent is given both functions as its tools and calls them in one process, where
  the generator of the \<open>random\<close> module is the only state a tool can reach. The body of
  \<open>validate_card_details\<close> reads its four parameters and a local list only.
\<close>

datatype tool_call =
    Validate pystr pystr pystr pystr
  | Issue pystr pystr pystr pystr

fun call_tool :: "tool_call \<Rightarrow> random_state \<Rightarrow> (py_error + pydict) \<times> random_state" where
  "call_tool (Validate d n a r) g = (Inr (validate_card_details d n a r), g)"
| "call_tool (Issue d n a r) g = issue_replacement_ticket d n a r g"

section \<open>The validation tool over the state of the interpreter\<close>

text \<open>
  The body of \<open>validate_card_details\<close> once more, statement by statement, with the state
  that a Python function can change made explicit: the generator of the \<open>random\<close>
  module and the heap of list objects. A list is an object of the heap, named by its
  address (its index in \<open>list_heap\<close>); a list display allocates a new object and
  \<open>append\<close> updates an object in place. Strings are immutable values. \<open>errors = []\<close> and
  \<open>valid_reasons = [...]\<close> allocate, \<open>errors.append(...)\<close> updates, \<open>in valid_reasons\<close>,
  \<open>join(valid_reasons)\<close> and \<open>if errors\<close> read the heap, and the returned dictionary
  refers to the \<open>errors\<close> object by its address.
\<close>

record process_state =
  random_gen :: random_state
  list_heap :: "pystr list list"

datatype pyref = RBool bool | RStr pystr | RList nat

definition new_list :: "pystr list \<Rightarrow> process_state \<Rightarrow> nat \<times> process_state" where
  "new_list xs s = (length (list_heap s), s\<lparr>list_heap := list_heap s @ [xs]\<rparr>)"

definition list_contents :: "nat \<Rightarrow> process_state \<Rightarrow> pystr list" where
  "list_contents a s = list_heap s ! a"

definition list_append :: "nat \<Rightarrow> pystr \<Rightarrow> process_state \<Rightarrow> process_state" where
  "list_append a x s = s\<lparr>list_heap := (list_heap s)[a := list_heap s ! a @ [x]]\<rparr>"

definition validate_card_details_st ::
  "pystr \<Rightarrow> pystr \<Rightarrow> pystr \<Rightarrow> pystr \<Rightarrow> process_state
     \<Rightarrow> (string \<times> pyref) list \<times> process_state" where
  "validate_card_details_st last_four_digits cardholder_name address replacement_reason s =
     (let (errors, s) = new_list [] s;
          s = (if last_four_digits = [] \<or> length last_four_digits \<noteq> 4
                  \<or> \<not> str_isdigit last_four_digits
               then list_append errors
                      (ascii ''Last 4 digits must be exactly 4 numeric characters'') s
               else s);
          s = (if cardholder_name = [] \<or> length (str_strip cardholder_name) < 2
               then list_append errors (ascii ''Cardholder name must be at least 2 characters'') s
               else s);
          s = (if address = [] \<or> length (str_strip address) < 10
               then list_append errors (ascii ''Address must be at least 10 characters'') s
               else s);
          (valid_reasons, s) =
            new_list [ascii ''lost'', ascii ''stolen'', ascii ''damaged'', ascii ''expired''] s;
          s = (if replacement_reason = []
                  \<or> str_lower replacement_reason \<notin> set (list_contents valid_reasons s)
               then list_append errors
                      (ascii ''Replacement reason must be one of: ''
                         @ str_join (ascii '', '') (list_contents valid_reasons s)) s
               else s)
      in if list_contents errors s \<noteq> []
         then ([(''valid'', RBool False),
                (''errors'', RList errors),
                (''status'', RStr (ascii ''validation_failed''))], s)
         else ([(''valid'', RBool True),
                (''last_four_digits'', RStr last_four_digits),
                (''cardholder_name'', RStr (str_strip cardholder_name)),
                (''address'', RStr (str_strip address)),
                (''replacement_reason'', RStr (str_lower replacement_reason)),
                (''status'', RStr (ascii ''validated''))], s))"

text \<open>
  The structure of a returned dictionary in a state: every reference to a list is
  replaced by the contents of the list.
\<close>

fun value_of :: "process_state \<Rightarrow> pyref \<Rightarrow> pyval" where
  "value_of s (RBool b) = VBool b"
| "value_of s (RStr x) = VStr x"
| "value_of s (RList a) = VList (list_contents a s)"

definition dict_value :: "process_state \<Rightarrow> (string \<times> pyref) list \<Rightarrow> pydict" where
  "dict_value s d = map (\<lambda>(k, v). (k, value_of s v)) d"

section \<open>The specification's constraints and result shapes\<close>

text \<open>The four messages that \<open>validate_card_details\<close> can report, in the order of its checks.\<close>

definition digits_message :: pystr where
  "digits_message = ascii ''Last 4 digits must be exactly 4 numeric characters''"

definition name_message :: pystr where
  "name_message = ascii ''Cardholder name must be at least 2 characters''"

definition address_message :: pystr where
  "address_message = ascii ''Address must be at least 10 characters''"

definition reason_message :: pystr where
  "reason_message = ascii ''Replacement reason must be one of: lost, stolen, damaged, expired''"

text \<open>
  The four field constraints as the specification words them: the digits field is
  non-empty, of length exactly 4, every character one of the ASCII digits \<open>0\<close> to \<open>9\<close>;
  name and address are non-empty after trimming whitespace, with trimmed length at least
  2 and 10; the reason is non-empty and, lowercased, one of the four valid reasons.
\<close>

definition is_ascii_digit :: "nat \<Rightarrow> bool" where
  "is_ascii_digit c = (0x30 \<le> c \<and> c \<le> 0x39)"

definition constraint_digits :: "pystr \<Rightarrow> bool" where
  "constraint_digits d = (d \<noteq> [] \<and> length d = 4 \<and> list_all is_ascii_digit d)"

definition constraint_name :: "pystr \<Rightarrow> bool" where
  "constraint_name n = (str_strip n \<noteq> [] \<and> 2 \<le> length (str_strip n))"

definition constraint_address :: "pystr \<Rightarrow> bool" where
  "constraint_address a = (str_strip a \<noteq> [] \<and> 10 \<le> length (str_strip a))"

definition constraint_reason :: "pystr \<Rightarrow> bool" where
  "constraint_reason r = (r \<noteq> [] \<and> str_lower r \<in> set valid_reasons)"

text \<open>
  The digits constraint with the digits of \<open>str.isdigit\<close>: exactly 4 characters, each
  with a Unicode digit value.
\<close>

definition constraint_digits_unicode :: "pystr \<Rightarrow> bool" where
  "constraint_digits_unicode d = (length d = 4 \<and> list_all is_digit d)"

text \<open>One message for each constraint that fails, in the order of the enumeration.\<close>

definition failing_messages :: "bool \<Rightarrow> bool \<Rightarrow> bool \<Rightarrow> bool \<Rightarrow> pystr list" where
  "failing_messages digits_ok name_ok address_ok reason_ok =
     map snd (filter (\<lambda>(ok, message). \<not> ok)
       [(digits_ok, digits_message), (name_ok, name_message),
        (address_ok, address_message), (reason_ok, reason_message)])"

text \<open>The two shapes of a validation result, and the error list a result carries.\<close>

definition valid_result :: "pystr \<Rightarrow> pystr \<Rightarrow> pystr \<Rightarrow> pystr \<Rightarrow> pydict" where
  "valid_result d n a r =
     [(''valid'', VBool True), (''last_four_digits'', VStr d), (''cardholder_name'', VStr n),
      (''address'', VStr a), (''replacement_reason'', VStr r), (''status'', VStr (ascii ''validated''))]"

definition invalid_result :: "pystr list \<Rightarrow> pydict" where
  "invalid_result es =
     [(''valid'', VBool False), (''errors'', VList es), (''status'', VStr (ascii ''validation_failed''))]"

definition reported_errors :: "pydict \<Rightarrow> pystr list" where
  "reported_errors res = (case map_of res ''errors'' of Some (VList es) \<Rightarrow> es | _ \<Rightarrow> [])"

text \<open>
  The fixed table of processing days (lost 3, stolen 1, damaged 2, expired 5, otherwise
  3), the alphabet of ticket identifiers, and the shape of an issued ticket.
\<close>

definition estimate :: "pystr \<Rightarrow> int" where
  "estimate reason =
     (if reason = ascii ''lost'' then 3
      else if reason = ascii ''stolen'' then 1
      else if reason = ascii ''damaged'' then 2
      else if reason = ascii ''expired'' then 5
      else 3)"

definition ticket_alphabet :: pystr where
  "ticket_alphabet = ascii ''ABCDEFGHIJKLMNOPQRSTUVWXYZ0123456789''"

definition ticket :: "pystr \<Rightarrow> pystr \<Rightarrow> pystr \<Rightarrow> pystr \<Rightarrow> int \<Rightarrow> pydict" where
  "ticket ticket_id n d r days =
     [(''ticket_id'', VStr ticket_id),
      (''status'', VStr (ascii ''issued'')),
      (''cardholder_name'', VStr n),
      (''last_four_digits'', VStr d),
      (''replacement_reason'', VStr r),
      (''estimated_processing_days'', VInt days),
      (''message'', VStr (ascii ''Replacement ticket '' @ ticket_id
         @ ascii '' issued successfully. New card will arrive in ''
         @ str_int days @ ascii '' business days.''))]"

text \<open>The state of a generator whose every draw is \<open>x\<close>.\<close>

definition all_draws :: "53 word \<Rightarrow> random_state" where
  "all_draws x i = x"

declare bit_length.simps [simp del]

declare str_nat.simps [simp del]

section \<open>Lemmas about the validation tool\<close>

lemma reason_message_formatted:
  "ascii ''Replacement reason must be one of: '' @ str_join (ascii '', '') valid_reasons = reason_message"
  by (simp add: reason_message_def valid_reasons_def ascii_def)

lemma str_strip_Nil: "str_strip [] = []"
  by (simp add: str_strip_def)

lemma digits_check: "(d = [] \<or> length d \<noteq> 4 \<or> \<not> str_isdigit d) = (\<not> constraint_digits_unicode d)"
  by (auto simp: constraint_digits_unicode_def str_isdigit_def)

lemma name_check: "(n = [] \<or> length (str_strip n) < 2) = (\<not> constraint_name n)"
  by (auto simp: constraint_name_def str_strip_Nil)

lemma address_check: "(a = [] \<or> length (str_strip a) < 10) = (\<not> constraint_address a)"
  by (auto simp: constraint_address_def str_strip_Nil)

lemma reason_check: "(r = [] \<or> str_lower r \<notin> set valid_reasons) = (\<not> constraint_reason r)"
  by (auto simp: constraint_reason_def)

lemma validate_card_details_eq:
  "validate_card_details d n a r =
     (if constraint_digits_unicode d \<and> constraint_name n \<and> constraint_address a \<and> constraint_reason r
      then valid_result d (str_strip n) (str_strip a) (str_lower r)
      else invalid_result (failing_messages (constraint_digits_unicode d) (constraint_name n)
             (constraint_address a) (constraint_reason r)))"
  unfolding validate_card_details_def digits_check name_check address_check reason_check
    reason_message_formatted
  by (simp add: Let_def valid_result_def invalid_result_def failing_messages_def
      digits_message_def name_message_def address_message_def)

lemma failing_messages_Nil:
  "(failing_messages p q s t = []) = (p \<and> q \<and> s \<and> t)"
  by (simp add: failing_messages_def)

lemma ascii_digit_is_digit: "is_ascii_digit c \<Longrightarrow> is_digit c"
  by (simp add: is_ascii_digit_def is_digit_def in_ranges_def digit_ranges_def)

lemma ascii_digits_accepted: "constraint_digits d \<Longrightarrow> constraint_digits_unicode d"
  by (auto simp: constraint_digits_def constraint_digits_unicode_def list_all_iff
      intro: ascii_digit_is_digit)

lemmas eval_defs =
  ascii_def str_isdigit_def is_digit_def in_ranges_def digit_ranges_def str_strip_def
  is_whitespace_def whitespace_ranges_def str_lower_def ascii_lower_def valid_reasons_def
  constraint_digits_def constraint_digits_unicode_def constraint_name_def
  constraint_address_def constraint_reason_def is_ascii_digit_def

lemma reported_errors_valid [simp]: "reported_errors (valid_result d n a r) = []"
  by (simp add: reported_errors_def valid_result_def)

lemma reported_errors_invalid [simp]: "reported_errors (invalid_result es) = es"
  by (simp add: reported_errors_def invalid_result_def)

lemma messages_distinct:
  "distinct [digits_message, name_message, address_message, reason_message]"
  by (simp add: digits_message_def name_message_def address_message_def reason_message_def
      ascii_def)

text \<open>
  What the body does to the state: it allocates two lists behind the objects that exist
  already, the error list and \<open>valid_reasons\<close>, and updates the first of them only. Seen
  through \<open>dict_value\<close>, its result is the one of \<open>validate_card_details\<close>.
\<close>

lemma validate_card_details_st_eq:
  "validate_card_details_st d n a r s =
     (if constraint_digits_unicode d \<and> constraint_name n \<and> constraint_address a
         \<and> constraint_reason r
      then [(''valid'', RBool True),
            (''last_four_digits'', RStr d),
            (''cardholder_name'', RStr (str_strip n)),
            (''address'', RStr (str_strip a)),
            (''replacement_reason'', RStr (str_lower r)),
            (''status'', RStr (ascii ''validated''))]
      else [(''valid'', RBool False),
            (''errors'', RList (length (list_heap s))),
            (''status'', RStr (ascii ''validation_failed''))],
      s\<lparr>list_heap := list_heap s
           @ [failing_messages (constraint_digits_unicode d) (constraint_name n)
                (constraint_address a) (constraint_reason r),
              valid_reasons]\<rparr>)"
  unfolding validate_card_details_st_def digits_check name_check address_check
  by (simp add: new_list_def list_append_def list_contents_def Let_def nth_append
      valid_reasons_def [symmetric] reason_check reason_message_formatted
      failing_messages_def digits_message_def name_message_def address_message_def)

lemma validate_card_details_st_value:
  "dict_value (snd (validate_card_details_st d n a r s)) (fst (validate_card_details_st d n a r s))
     = validate_card_details d n a r"
  by (simp add: validate_card_details_st_eq validate_card_details_eq dict_value_def
      list_contents_def valid_result_def invalid_result_def)

section \<open>Lemmas about the randomness source and the ticket tool\<close>

text \<open>
  The product \<open>random() * 36.0\<close> is at most \<open>36 - 36 * 2^-53\<close> before rounding, and
  rounding moves it by at most \<open>32 * 2^-53\<close>: the index stays below 36.
\<close>

lemma bit_length_le: "p < 2 ^ k \<Longrightarrow> bit_length p \<le> k"
proof (induction k arbitrary: p)
  case 0
  then show ?case by (simp add: bit_length.simps)
next
  case (Suc k)
  show ?case
  proof (cases "p = 0")
    case True
    then show ?thesis by (simp add: bit_length.simps)
  next
    case False
    from Suc.prems have "p div 2 < 2 ^ k" by simp
    then have "bit_length (p div 2) \<le> k" by (rule Suc.IH)
    with False show ?thesis by (subst bit_length.simps) simp
  qed
qed

lemma round_half_even_le: "2 * round_half_even e p \<le> 2 * p + 2 ^ e"
proof -
  have split: "p = (p div 2 ^ e) * 2 ^ e + p mod 2 ^ e"
    using div_mult_mod_eq [of p "2 ^ e"] by linarith
  show ?thesis
  proof (cases "2 ^ e < 2 * (p mod 2 ^ e) \<or> (2 * (p mod 2 ^ e) = 2 ^ e \<and> odd (p div 2 ^ e))")
    case True
    then have up: "round_half_even e p = (p div 2 ^ e) * 2 ^ e + 2 ^ e"
      by (simp add: round_half_even_def Let_def)
    from True have "(2::nat) ^ e \<le> 2 * (p mod 2 ^ e)" by auto
    with split up show ?thesis by linarith
  next
    case False
    then have "round_half_even e p = (p div 2 ^ e) * 2 ^ e"
      by (simp add: round_half_even_def Let_def)
    with split show ?thesis by linarith
  qed
qed

lemma to_double_36: "to_double 36 = 36"
  by (simp add: to_double_def round_half_even_def bit_length.simps)

lemma random_index_in_range: "floor_double (random_times x 36) < 36"
proof -
  define p where "p = unat x * 36"
  have "unat x < 2 ^ 53" using unsigned_less [of x] by simp
  then have p_le: "p + 36 \<le> 36 * 2 ^ 53" by (simp add: p_def)
  then have "p < 2 ^ 59" by simp
  then have "bit_length p \<le> 59" by (rule bit_length_le)
  then have "bit_length p - 53 \<le> 6" by simp
  then have "(2::nat) ^ (bit_length p - 53) \<le> 2 ^ 6" by (rule power_increasing) simp
  moreover have "2 * to_double p \<le> 2 * p + 2 ^ (bit_length p - 53)"
    unfolding to_double_def by (rule round_half_even_le)
  ultimately have "2 * to_double p \<le> 2 * p + 64" by simp
  with p_le have "to_double p < 36 * 2 ^ 53" by simp
  then have "to_double p div 2 ^ 53 < 36" by (simp add: less_mult_imp_div_less)
  then show ?thesis by (simp add: floor_double_def random_times_def to_double_36 p_def)
qed

lemma random_choices_total:
  assumes "length population = 36"
  shows "\<exists>chosen. random_choices population k g = (Inr chosen, \<lambda>i. g (i + k))
           \<and> length chosen = k \<and> set chosen \<subseteq> set population"
proof (induction k arbitrary: g)
  case 0
  show ?case by simp
next
  case (Suc k)
  let ?i = "floor_double (random_times (g 0) 36)"
  have i: "?i < 36" by (rule random_index_in_range)
  obtain chosen where step: "random_choices population k (\<lambda>i. g (Suc i))
        = (Inr chosen, \<lambda>i. g (Suc (i + k)))"
      and len: "length chosen = k" and sub: "set chosen \<subseteq> set population"
    using Suc.IH [of "\<lambda>i. g (Suc i)"] by auto
  from i assms have "population ! ?i \<in> set population" by simp
  with i step len sub assms show ?case
    by (simp add: rng_random_def)
qed

lemma str_join_singletons: "str_join [] (map (\<lambda>c. [c]) cs) = cs"
  by (induction cs rule: induct_list012) simp_all

lemma alphabet_eq: "ascii_uppercase @ digits = ticket_alphabet"
  by (simp add: ascii_uppercase_def digits_def ticket_alphabet_def ascii_def)

lemma length_ticket_alphabet: "length ticket_alphabet = 36"
  by (simp add: ticket_alphabet_def ascii_def)

lemma dict_get_processing_days:
  "dict_get [(ascii ''lost'', 3), (ascii ''stolen'', 1), (ascii ''damaged'', 2),
      (ascii ''expired'', 5)] reason 3 = estimate reason"
  by (simp add: dict_get_def estimate_def)

lemma singletons_of_subset:
  "set xs \<subseteq> (\<lambda>c. [c]) ` A \<Longrightarrow> \<exists>ys. xs = map (\<lambda>c. [c]) ys \<and> set ys \<subseteq> A"
proof (induction xs)
  case Nil
  then show ?case by simp
next
  case (Cons x xs)
  then obtain ys where "xs = map (\<lambda>c. [c]) ys" and "set ys \<subseteq> A" by auto
  moreover from Cons.prems obtain c where "x = [c]" and "c \<in> A" by auto
  ultimately have step: "x # xs = map (\<lambda>c. [c]) (c # ys) \<and> set (c # ys) \<subseteq> A" by simp
  show ?case by (rule exI [of _ "c # ys"]) (rule step)
qed

lemma issue_replacement_ticket_eq:
  "\<exists>suffix. length suffix = 8 \<and> set suffix \<subseteq> set ticket_alphabet
     \<and> issue_replacement_ticket d n a r g
         = (Inr (ticket (ascii ''TICKET-'' @ suffix) n d r (estimate (str_lower r))),
            \<lambda>i. g (i + 8))"
proof -
  have "length (map (\<lambda>c. [c]) ticket_alphabet) = 36"
    by (simp add: length_ticket_alphabet)
  from random_choices_total [OF this, of 8 g]
  obtain chosen where run: "random_choices (map (\<lambda>c. [c]) ticket_alphabet) 8 g
        = (Inr chosen, \<lambda>i. g (i + 8))"
      and len: "length chosen = 8"
      and sub: "set chosen \<subseteq> (\<lambda>c. [c]) ` set ticket_alphabet"
    by auto
  from singletons_of_subset [OF sub] obtain suffix
    where chosen: "chosen = map (\<lambda>c. [c]) suffix"
      and suffix: "set suffix \<subseteq> set ticket_alphabet"
    by blast
  from len chosen have len8: "length suffix = 8" by simp
  have "issue_replacement_ticket d n a r g
         = (Inr (ticket (ascii ''TICKET-'' @ suffix) n d r (estimate (str_lower r))),
            \<lambda>i. g (i + 8))"
    unfolding issue_replacement_ticket_def alphabet_eq run chosen
    by (simp add: str_join_singletons dict_get_processing_days ticket_def Let_def)
  with len8 suffix show ?thesis by blast
qed

lemma estimate_range: "estimate reason \<in> {1, 2, 3, 5}"
  by (simp add: estimate_def)

lemma ticket_fields:
  "map_of (ticket tid n d r days) ''ticket_id'' = Some (VStr tid)"
  "map_of (ticket tid n d r days) ''status'' = Some (VStr (ascii ''issued''))"
  "map_of (ticket tid n d r days) ''cardholder_name'' = Some (VStr n)"
  "map_of (ticket tid n d r days) ''last_four_digits'' = Some (VStr d)"
  "map_of (ticket tid n d r days) ''replacement_reason'' = Some (VStr r)"
  "map_of (ticket tid n d r days) ''estimated_processing_days'' = Some (VInt days)"
  by (simp_all add: ticket_def)

text \<open>The largest draw selects the last character of the alphabet, eight times.\<close>

lemma unat_max53: "unat (- 1 :: 53 word) = 2 ^ 53 - 1"
  by (simp add: unsigned_minus_1_eq_mask mask_eq_exp_minus_1)

lemma draw_max: "floor_double (random_times (- 1) 36) = 35"
  by (simp add: floor_double_def random_times_def to_double_def round_half_even_def bit_length.simps unat_max53 Let_def)

lemma all_draws_shift: "(\<lambda>i. all_draws x (Suc i)) = all_draws x"
  by (rule ext) (simp add: all_draws_def)

lemma random_choices_all_draws:
  assumes "floor_double (random_times x (length population)) = i" and "i < length population"
  shows "random_choices population k (all_draws x)
           = (Inr (replicate k (population ! i)), all_draws x)"
  using assms by (induction k) (simp_all add: rng_random_def all_draws_shift all_draws_def [of _ 0])

lemma last_of_alphabet: "ticket_alphabet ! 35 = 0x39"
  by (simp add: ticket_alphabet_def ascii_def)

lemma issue_all_max:
  "issue_replacement_ticket d n a (ascii ''lost'') (all_draws (- 1))
     = (Inr (ticket (ascii ''TICKET-99999999'') n d (ascii ''lost'') 3), all_draws (- 1))"
proof -
  have "random_choices (map (\<lambda>c. [c]) ticket_alphabet) 8 (all_draws (- 1))
          = (Inr (map (\<lambda>c. [c]) (replicate 8 0x39)), all_draws (- 1))"
    by (subst random_choices_all_draws [where i = 35])
      (simp_all add: length_ticket_alphabet draw_max last_of_alphabet)
  moreover have "estimate (str_lower (ascii ''lost'')) = 3"
    by (simp add: estimate_def str_lower_def ascii_lower_def ascii_def)
  moreover have "ascii ''TICKET-'' @ replicate 8 0x39 = ascii ''TICKET-99999999''"
    by code_simp
  ultimately show ?thesis
    unfolding issue_replacement_ticket_def alphabet_eq
    by (simp add: str_join_singletons dict_get_processing_days ticket_def Let_def
        del: map_replicate)
qed

section \<open>The claims\<close>

text \<open>
  Claim C1, as the code has it. \<open>validate_card_details\<close> returns \<open>valid = True\<close> if and
  only if the four field constraints hold together, where the digits constraint is the
  one of \<open>str.isdigit\<close>: exactly 4 characters, each with a Unicode digit value. When they
  hold the result is the complete valid result; otherwise it is an invalid result with a
  non-empty error list. No other shape is returned.
\<close>

theorem validate_valid_iff_constraints:
  "(map_of (validate_card_details d n a r) ''valid'' = Some (VBool True))
     = (constraint_digits_unicode d \<and> constraint_name n \<and> constraint_address a
        \<and> constraint_reason r)
   \<and> (if constraint_digits_unicode d \<and> constraint_name n \<and> constraint_address a
          \<and> constraint_reason r
       then validate_card_details d n a r
              = valid_result d (str_strip n) (str_strip a) (str_lower r)
       else validate_card_details d n a r
              = invalid_result (reported_errors (validate_card_details d n a r))
            \<and> reported_errors (validate_card_details d n a r) \<noteq> [])"
  by (simp add: validate_card_details_eq valid_result_def invalid_result_def
      reported_errors_def failing_messages_Nil)

theorem validate_valid_iff_constraints_witness:
  "map_of (validate_card_details [0xB9, 0xB2, 0xB3, 0x2074] (ascii ''John Smith'')
       (ascii ''123 Main Street, Anytown, NY 12345'') (ascii ''lost'')) ''valid''
     = Some (VBool True)
   \<and> map_of (validate_card_details (ascii ''48'') (ascii ''J'') (ascii ''short'')
       (ascii ''misplaced'')) ''valid'' \<noteq> Some (VBool True)
   \<and> reported_errors (validate_card_details (ascii ''48'') (ascii ''J'') (ascii ''short'')
       (ascii ''misplaced'')) \<noteq> []"
  using validate_valid_iff_constraints [of "[0xB9, 0xB2, 0xB3, 0x2074]" "ascii ''John Smith''"
      "ascii ''123 Main Street, Anytown, NY 12345''" "ascii ''lost''"]
    validate_valid_iff_constraints [of "ascii ''48''" "ascii ''J''" "ascii ''short''" "ascii ''misplaced''"]
  by (simp add: eval_defs valid_result_def)

text \<open>
  With the digits constraint of the specification (ASCII digits), C1 fails: the four
  superscript digits U+00B9, U+00B2, U+00B3, U+2074 are no decimal digits, yet
  \<open>str.isdigit\<close> holds of them and the request is valid.
\<close>

theorem validate_valid_iff_spec_constraints_counterexample:
  "\<not> ((map_of (validate_card_details [0xB9, 0xB2, 0xB3, 0x2074] (ascii ''John Smith'')
           (ascii ''123 Main Street, Anytown, NY 12345'') (ascii ''lost'')) ''valid''
         = Some (VBool True))
      = (constraint_digits [0xB9, 0xB2, 0xB3, 0x2074] \<and> constraint_name (ascii ''John Smith'')
         \<and> constraint_address (ascii ''123 Main Street, Anytown, NY 12345'')
         \<and> constraint_reason (ascii ''lost'')))"
  by (simp add: validate_card_details_eq valid_result_def eval_defs)

text \<open>
  Claim C2, as the code has it. When at least one of the four constraints fails, with
  the digits constraint of \<open>str.isdigit\<close>, \<open>validate_card_details\<close> returns the invalid
  result with status \<open>validation_failed\<close> and a non-empty error list that holds exactly
  one message for each failing constraint, in the order digits, name, address, reason.
\<close>

theorem validate_reports_failing_constraints:
  assumes "\<not> (constraint_digits_unicode d \<and> constraint_name n \<and> constraint_address a
             \<and> constraint_reason r)"
  shows "validate_card_details d n a r
           = [(''valid'', VBool False),
              (''errors'', VList (failing_messages (constraint_digits_unicode d)
                 (constraint_name n) (constraint_address a) (constraint_reason r))),
              (''status'', VStr (ascii ''validation_failed''))]
         \<and> failing_messages (constraint_digits_unicode d) (constraint_name n)
              (constraint_address a) (constraint_reason r) \<noteq> []"
  using assms unfolding validate_card_details_eq
  by (auto simp: invalid_result_def failing_messages_Nil)

theorem validate_reports_failing_constraints_witness:
  "validate_card_details (ascii ''48'') (ascii ''John Smith'') (ascii ''short'') (ascii ''LOST'')
     = [(''valid'', VBool False),
        (''errors'', VList [digits_message, address_message]),
        (''status'', VStr (ascii ''validation_failed''))]"
  using validate_reports_failing_constraints [of "ascii ''48''" "ascii ''John Smith''"
      "ascii ''short''" "ascii ''LOST''"]
  by (simp add: eval_defs failing_messages_def)

text \<open>
  With the digits constraint of the specification, C2 fails: for the digits field
  \<open>U+00B2\<close> four times and the name \<open>J\<close>, the constraints on digits and name both fail,
  and the error list holds the message for the name only.
\<close>

theorem validate_spec_constraints_unreported_counterexample:
  "\<not> constraint_digits [0xB2, 0xB2, 0xB2, 0xB2]
   \<and> \<not> constraint_name (ascii ''J'')
   \<and> constraint_address (ascii ''123 Main Street, Anytown, NY 12345'')
   \<and> constraint_reason (ascii ''lost'')
   \<and> validate_card_details [0xB2, 0xB2, 0xB2, 0xB2] (ascii ''J'')
         (ascii ''123 Main Street, Anytown, NY 12345'') (ascii ''lost'')
       = [(''valid'', VBool False), (''errors'', VList [name_message]),
          (''status'', VStr (ascii ''validation_failed''))]"
  by (simp add: validate_card_details_eq invalid_result_def failing_messages_def eval_defs)

text \<open>
  Claim C3, as the code has it. \<open>validate_card_details\<close> reports the digits error
  exactly when the digits field is not a string of exactly 4 characters that each have a
  Unicode digit value (\<open>str.isdigit\<close>). Every string of exactly 4 ASCII digits is
  accepted; so are other digits, such as the fullwidth ones.
\<close>

theorem digits_error_iff_not_unicode_digits:
  "(digits_message \<in> set (reported_errors (validate_card_details d n a r)))
     = (\<not> (length d = 4 \<and> list_all is_digit d))
   \<and> (constraint_digits d
        \<longrightarrow> digits_message \<notin> set (reported_errors (validate_card_details d n a r)))"
  using messages_distinct ascii_digits_accepted [of d]
  by (auto simp: validate_card_details_eq failing_messages_def constraint_digits_unicode_def)

theorem digits_error_iff_not_unicode_digits_witness:
  "digits_message \<notin> set (reported_errors (validate_card_details (ascii ''4829'') [] [] []))
   \<and> digits_message \<in> set (reported_errors (validate_card_details (ascii ''482a'') [] [] []))
   \<and> digits_message \<in> set (reported_errors (validate_card_details (ascii ''48290'') [] [] []))"
  using digits_error_iff_not_unicode_digits [of "ascii ''4829''" "[]" "[]" "[]"]
    digits_error_iff_not_unicode_digits [of "ascii ''482a''" "[]" "[]" "[]"]
    digits_error_iff_not_unicode_digits [of "ascii ''48290''" "[]" "[]" "[]"]
  by (simp add: eval_defs)

text \<open>
  C3 as stated fails: the fullwidth digits U+FF14, U+FF18, U+FF12, U+FF19 are not
  ASCII digits, and no digits error is reported for them.
\<close>

theorem digits_error_iff_not_ascii_digits_counterexample:
  "digits_message \<notin> set (reported_errors (validate_card_details
       [0xFF14, 0xFF18, 0xFF12, 0xFF19] (ascii ''John Smith'')
       (ascii ''123 Main Street, Anytown, NY 12345'') (ascii ''lost'')))
   \<and> \<not> constraint_digits [0xFF14, 0xFF18, 0xFF12, 0xFF19]"
  by (simp add: validate_card_details_eq eval_defs)

text \<open>
  Claim C4. For every input that satisfies the four constraints of the specification,
  \<open>validate_card_details\<close> returns the valid result whose name and address are the
  trimmed inputs, whose reason is the lowercased input, and whose digits are the input
  unchanged.
\<close>

theorem validate_normalizes:
  assumes "constraint_digits d" and "constraint_name n" and "constraint_address a"
    and "constraint_reason r"
  shows "validate_card_details d n a r
           = [(''valid'', VBool True),
              (''last_four_digits'', VStr d),
              (''cardholder_name'', VStr (str_strip n)),
              (''address'', VStr (str_strip a)),
              (''replacement_reason'', VStr (str_lower r)),
              (''status'', VStr (ascii ''validated''))]"
  using assms ascii_digits_accepted [of d]
  by (simp add: validate_card_details_eq valid_result_def)

theorem validate_normalizes_witness:
  "validate_card_details (ascii ''4829'') (ascii ''  John Smith '')
       (ascii '' 123 Main Street, Anytown, NY 12345  '') (ascii ''Lost'')
     = [(''valid'', VBool True),
        (''last_four_digits'', VStr (ascii ''4829'')),
        (''cardholder_name'', VStr (ascii ''John Smith'')),
        (''address'', VStr (ascii ''123 Main Street, Anytown, NY 12345'')),
        (''replacement_reason'', VStr (ascii ''lost'')),
        (''status'', VStr (ascii ''validated''))]"
  using validate_normalizes [of "ascii ''4829''" "ascii ''  John Smith ''"
      "ascii '' 123 Main Street, Anytown, NY 12345  ''" "ascii ''Lost''"]
  by (simp add: eval_defs)

text \<open>
  Claim C5. For every input and every state of the generator,
  \<open>issue_replacement_ticket\<close> returns a ticket whose \<open>estimated_processing_days\<close> is the
  table value of the lowercased reason (lost 3, stolen 1, damaged 2, expired 5) and 3
  for a reason that is not in the table; the estimate is one of 1, 2, 3, 5.
\<close>

theorem issue_estimated_processing_days:
  "\<exists>t g'. issue_replacement_ticket d n a r g = (Inr t, g')
     \<and> map_of t ''estimated_processing_days'' = Some (VInt (estimate (str_lower r)))
     \<and> estimate (str_lower r) \<in> {1, 2, 3, 5}"
  using issue_replacement_ticket_eq [of d n a r g]
  by (auto simp: ticket_fields estimate_range simp del: insert_iff)

theorem issue_estimated_processing_days_witness:
  "\<exists>t g'. issue_replacement_ticket (ascii ''4829'') (ascii ''John Smith'')
        (ascii ''123 Main Street, Anytown, NY 12345'') (ascii ''Expired'') (all_draws 0) = (Inr t, g')
     \<and> map_of t ''estimated_processing_days'' = Some (VInt 5)"
  using issue_estimated_processing_days [of "ascii ''4829''" "ascii ''John Smith''"
      "ascii ''123 Main Street, Anytown, NY 12345''" "ascii ''Expired''" "all_draws 0"]
  by (simp add: estimate_def str_lower_def ascii_lower_def ascii_def)

text \<open>
  Claim C6. For every input and every state of the generator, the \<open>ticket_id\<close> of the
  returned ticket is \<open>TICKET-\<close> followed by exactly 8 characters, each one of the 36
  characters \<open>A\<close> to \<open>Z\<close> and \<open>0\<close> to \<open>9\<close>.
\<close>

theorem ticket_id_pattern:
  "\<exists>t g' suffix. issue_replacement_ticket d n a r g = (Inr t, g')
     \<and> map_of t ''ticket_id'' = Some (VStr (ascii ''TICKET-'' @ suffix))
     \<and> length suffix = 8
     \<and> set suffix \<subseteq> set (ascii ''ABCDEFGHIJKLMNOPQRSTUVWXYZ0123456789'')"
  using issue_replacement_ticket_eq [of d n a r g]
  unfolding ticket_alphabet_def by (auto simp: ticket_fields)

theorem ticket_id_pattern_witness:
  "\<exists>t g' suffix. issue_replacement_ticket (ascii ''4829'') (ascii ''John Smith'')
        (ascii ''123 Main Street, Anytown, NY 12345'') (ascii ''lost'') (all_draws (- 1)) = (Inr t, g')
     \<and> map_of t ''ticket_id'' = Some (VStr (ascii ''TICKET-'' @ suffix))
     \<and> length suffix = 8
     \<and> set suffix \<subseteq> set (ascii ''ABCDEFGHIJKLMNOPQRSTUVWXYZ0123456789'')"
  by (rule ticket_id_pattern)

text \<open>
  Claim C7. When the reason is \<open>STOLEN\<close> and the other three fields satisfy their
  constraints, \<open>validate_card_details\<close> returns the valid result with the reason
  \<open>stolen\<close>, and a ticket issued from the validated fields has
  \<open>estimated_processing_days = 1\<close>.
\<close>

theorem stolen_scenario:
  assumes "constraint_digits d" and "constraint_name n" and "constraint_address a"
  shows "validate_card_details d n a (ascii ''STOLEN'')
           = [(''valid'', VBool True),
              (''last_four_digits'', VStr d),
              (''cardholder_name'', VStr (str_strip n)),
              (''address'', VStr (str_strip a)),
              (''replacement_reason'', VStr (ascii ''stolen'')),
              (''status'', VStr (ascii ''validated''))]
         \<and> (\<exists>t g'. issue_replacement_ticket d (str_strip n) (str_strip a) (ascii ''stolen'') g
                      = (Inr t, g')
                \<and> map_of t ''estimated_processing_days'' = Some (VInt 1))"
proof -
  have lower: "str_lower (ascii ''STOLEN'') = ascii ''stolen''"
    by (simp add: str_lower_def ascii_lower_def ascii_def)
  have lower': "str_lower (ascii ''stolen'') = ascii ''stolen''"
    by (simp add: str_lower_def ascii_lower_def ascii_def)
  have "constraint_reason (ascii ''STOLEN'')"
    unfolding constraint_reason_def lower by (simp add: valid_reasons_def ascii_def)
  with assms ascii_digits_accepted [of d]
  have "validate_card_details d n a (ascii ''STOLEN'')
          = valid_result d (str_strip n) (str_strip a) (ascii ''stolen'')"
    by (simp add: validate_card_details_eq lower)
  moreover have "estimate (ascii ''stolen'') = 1"
    by (simp add: estimate_def ascii_def)
  ultimately show ?thesis
    using issue_replacement_ticket_eq [of d "str_strip n" "str_strip a" "ascii ''stolen''" g]
    by (auto simp: valid_result_def ticket_fields lower')
qed

theorem stolen_scenario_witness:
  "validate_card_details (ascii ''4829'') (ascii ''John Smith'')
       (ascii ''123 Main Street, Anytown, NY 12345'') (ascii ''STOLEN'')
     = [(''valid'', VBool True),
        (''last_four_digits'', VStr (ascii ''4829'')),
        (''cardholder_name'', VStr (ascii ''John Smith'')),
        (''address'', VStr (ascii ''123 Main Street, Anytown, NY 12345'')),
        (''replacement_reason'', VStr (ascii ''stolen'')),
        (''status'', VStr (ascii ''validated''))]
   \<and> (\<exists>t g'. issue_replacement_ticket (ascii ''4829'') (ascii ''John Smith'')
          (ascii ''123 Main Street, Anytown, NY 12345'') (ascii ''stolen'') (all_draws 0)
                = (Inr t, g')
          \<and> map_of t ''estimated_processing_days'' = Some (VInt 1))"
  using stolen_scenario [of "ascii ''4829''" "ascii ''John Smith''"
      "ascii ''123 Main Street, Anytown, NY 12345''" "all_draws 0"]
  by (simp add: eval_defs)

text \<open>
  Claim C8. \<open>validate_card_details\<close> is deterministic and has no side effects. Two
  calls on the same four strings, from any two states of the interpreter (the second
  may be the state the first call left), return dictionaries of identical structure.
  The state after a call is the state before it with new list objects allocated behind
  the existing ones: the generator of the \<open>random\<close> module and every list that existed
  before the call are as they were.
\<close>

theorem validate_deterministic_no_side_effects:
  "dict_value (snd (validate_card_details_st d n a r s))
       (fst (validate_card_details_st d n a r s))
     = dict_value (snd (validate_card_details_st d n a r s'))
         (fst (validate_card_details_st d n a r s'))
   \<and> (\<exists>fresh. snd (validate_card_details_st d n a r s)
          = s\<lparr>list_heap := list_heap s @ fresh\<rparr>)
   \<and> random_gen (snd (validate_card_details_st d n a r s)) = random_gen s
   \<and> take (length (list_heap s)) (list_heap (snd (validate_card_details_st d n a r s)))
       = list_heap s"
proof -
  have same: "dict_value (snd (validate_card_details_st d n a r s))
       (fst (validate_card_details_st d n a r s))
     = dict_value (snd (validate_card_details_st d n a r s'))
         (fst (validate_card_details_st d n a r s'))"
    by (simp only: validate_card_details_st_value)
  have state: "snd (validate_card_details_st d n a r s)
      = s\<lparr>list_heap := list_heap s
           @ [failing_messages (constraint_digits_unicode d) (constraint_name n)
                (constraint_address a) (constraint_reason r),
              valid_reasons]\<rparr>"
    by (simp add: validate_card_details_st_eq)
  from state have "\<exists>fresh. snd (validate_card_details_st d n a r s)
      = s\<lparr>list_heap := list_heap s @ fresh\<rparr>"
    by (rule exI)
  moreover from state
  have "random_gen (snd (validate_card_details_st d n a r s)) = random_gen s"
    by simp
  moreover from state
  have "take (length (list_heap s)) (list_heap (snd (validate_card_details_st d n a r s)))
      = list_heap s"
    by simp
  ultimately show ?thesis using same by blast
qed

theorem validate_deterministic_no_side_effects_witness:
  "dict_value
       (snd (validate_card_details_st (ascii ''48'') (ascii ''J'') (ascii ''short'')
          (ascii ''misplaced'') \<lparr>random_gen = all_draws 0, list_heap = [[ascii ''kept'']]\<rparr>))
       (fst (validate_card_details_st (ascii ''48'') (ascii ''J'') (ascii ''short'')
          (ascii ''misplaced'') \<lparr>random_gen = all_draws 0, list_heap = [[ascii ''kept'']]\<rparr>))
     = dict_value
         (snd (validate_card_details_st (ascii ''48'') (ascii ''J'') (ascii ''short'')
            (ascii ''misplaced'') \<lparr>random_gen = all_draws (- 1), list_heap = []\<rparr>))
         (fst (validate_card_details_st (ascii ''48'') (ascii ''J'') (ascii ''short'')
            (ascii ''misplaced'') \<lparr>random_gen = all_draws (- 1), list_heap = []\<rparr>))
   \<and> random_gen
         (snd (validate_card_details_st (ascii ''48'') (ascii ''J'') (ascii ''short'')
            (ascii ''misplaced'') \<lparr>random_gen = all_draws 0, list_heap = [[ascii ''kept'']]\<rparr>))
       = all_draws 0
   \<and> take 1 (list_heap
         (snd (validate_card_details_st (ascii ''48'') (ascii ''J'') (ascii ''short'')
            (ascii ''misplaced'') \<lparr>random_gen = all_draws 0, list_heap = [[ascii ''kept'']]\<rparr>)))
       = [[ascii ''kept'']]"
  using validate_deterministic_no_side_effects [of "ascii ''48''" "ascii ''J''" "ascii ''short''"
      "ascii ''misplaced''" "\<lparr>random_gen = all_draws 0, list_heap = [[ascii ''kept'']]\<rparr>"
      "\<lparr>random_gen = all_draws (- 1), list_heap = []\<rparr>"]
  by simp

text \<open>
  Claim C9. The \<open>replacement_reason\<close> of the ticket is the argument itself, neither
  lowercased nor trimmed, while the processing days are looked up with the lowercased
  argument.
\<close>

theorem issue_echoes_reason:
  "\<exists>t g'. issue_replacement_ticket d n a r g = (Inr t, g')
     \<and> map_of t ''replacement_reason'' = Some (VStr r)
     \<and> map_of t ''estimated_processing_days'' = Some (VInt (estimate (str_lower r)))"
  using issue_replacement_ticket_eq [of d n a r g]
  by (auto simp: ticket_fields)

theorem issue_echoes_reason_witness:
  "\<exists>t g'. issue_replacement_ticket (ascii ''4829'') (ascii ''John Smith'')
        (ascii ''123 Main Street, Anytown, NY 12345'') (ascii '' STOLEN'') (all_draws 0) = (Inr t, g')
     \<and> map_of t ''replacement_reason'' = Some (VStr (ascii '' STOLEN''))
     \<and> map_of t ''estimated_processing_days'' = Some (VInt 3)"
  using issue_echoes_reason [of "ascii ''4829''" "ascii ''John Smith''"
      "ascii ''123 Main Street, Anytown, NY 12345''" "ascii '' STOLEN''" "all_draws 0"]
  by (simp add: estimate_def str_lower_def ascii_lower_def ascii_def)

text \<open>
  Claim C10. On all strings both tools return a result and raise nothing: the only
  operation of either body that can raise is the indexing inside \<open>random.choices\<close>,
  whose index is always in range. The ticket tool always returns status \<open>issued\<close>.
\<close>

theorem tools_total:
  "(\<exists>res. call_tool (Validate d n a r) g = (Inr res, g)
        \<and> (map_of res ''status'' = Some (VStr (ascii ''validated''))
           \<or> map_of res ''status'' = Some (VStr (ascii ''validation_failed''))))
   \<and> (\<exists>t g'. call_tool (Issue d n a r) g = (Inr t, g')
        \<and> map_of t ''status'' = Some (VStr (ascii ''issued'')))"
  using issue_replacement_ticket_eq [of d n a r g]
  by (auto simp: ticket_fields validate_card_details_eq valid_result_def invalid_result_def)

theorem tools_total_witness:
  "(\<exists>res. call_tool (Validate [] [0x20, 0x3000] [0x4E2D, 0x6587] [0x130]) (all_draws 0)
            = (Inr res, all_draws 0)
        \<and> (map_of res ''status'' = Some (VStr (ascii ''validated''))
           \<or> map_of res ''status'' = Some (VStr (ascii ''validation_failed''))))
   \<and> (\<exists>t g'. call_tool (Issue [] [0x20, 0x3000] [0x4E2D, 0x6587] [0x130]) (all_draws 0)
            = (Inr t, g')
        \<and> map_of t ''status'' = Some (VStr (ascii ''issued'')))"
  by (rule tools_total)

end
